theory Spec2Isabelle
  imports Complex_Main "HOL-Library.Word"
begin

section \<open>JavaScript values seen by the request orchestrator of \<open>App.jsx\<close>\<close>

text \<open>
  A JavaScript string is a sequence of UTF-16 code units. String literals of the source
  are ASCII, so they are written \<open>js ''...''\<close>.
\<close>

type_synonym jsstring = "16 word list"

definition js :: "string \<Rightarrow> jsstring" where
  "js cs = map of_char cs"

text \<open>
  The value \<open>response.json()\<close> resolves with. An object is the list of its own
  properties (keys distinct, as \<open>JSON.parse\<close> leaves them); a number is the real
  value of the double it was parsed to.
\<close>

datatype json =
    JNull
  | JBool bool
  | JNum real
  | JStr jsstring
  | JArr "json list"
  | JObj "(jsstring \<times> json) list"

text \<open>
  A settled promise, or the outcome of an expression that may throw: \<open>Inl m\<close> is a
  rejection (a throw) whose reason has \<open>.message = m\<close>, \<open>Inr v\<close> the value.
\<close>

type_synonym 'a promise = "jsstring + 'a"

text \<open>
  What the JavaScript engine supplies and the repository does not define: the message
  of the \<open>TypeError\<close> raised when a property (named by the argument) is read from
  \<open>null\<close>, and \<open>ToString\<close> on numbers, arrays and objects (which may throw).
\<close>

record engine =
  null_read :: "jsstring \<Rightarrow> jsstring"
  to_text :: "json \<Rightarrow> jsstring + jsstring"

text \<open>\<open>ToBoolean\<close>; \<open>None\<close> is \<open>undefined\<close>.\<close>

fun truthy :: "json option \<Rightarrow> bool" where
  "truthy None = False"
| "truthy (Some JNull) = False"
| "truthy (Some (JBool b)) = b"
| "truthy (Some (JNum r)) = (r \<noteq> 0)"
| "truthy (Some (JStr s)) = (s \<noteq> [])"
| "truthy (Some (JArr vs)) = True"
| "truthy (Some (JObj kvs)) = True"

text \<open>
  Reading one of the properties \<open>detail\<close>, \<open>script\<close>, \<open>audio_url\<close> (the only ones
  the handlers read; no built-in prototype defines them) from a parsed value.
\<close>

fun get_prop :: "engine \<Rightarrow> json \<Rightarrow> jsstring \<Rightarrow> (json option) promise" where
  "get_prop e JNull k = Inl (null_read e k)"
| "get_prop e (JObj kvs) k = Inr (map_of kvs k)"
| "get_prop e v k = Inr None"

text \<open>\<open>ToString\<close>, as \<open>new Error(x)\<close> and a template literal apply it.\<close>

fun ToString :: "engine \<Rightarrow> json option \<Rightarrow> jsstring promise" where
  "ToString e None = Inr (js ''undefined'')"
| "ToString e (Some JNull) = Inr (js ''null'')"
| "ToString e (Some (JBool b)) = Inr (if b then js ''true'' else js ''false'')"
| "ToString e (Some (JStr s)) = Inr s"
| "ToString e (Some v) = to_text e v"

section \<open>String operations\<close>

text \<open>
  The code units the regular expression class \<open>\s\<close> matches: ECMAScript's WhiteSpace
  and LineTerminator.
\<close>

definition is_space :: "16 word \<Rightarrow> bool" where
  "is_space c =
     (c \<in> set [0x0009, 0x000A, 0x000B, 0x000C, 0x000D, 0x0020, 0x00A0, 0x1680,
               0x2028, 0x2029, 0x202F, 0x205F, 0x3000, 0xFEFF]
      \<or> (0x2000 \<le> c \<and> c \<le> 0x200A))"

text \<open>
  \<open>s.split(/\s+/)\<close>: the scan looks for the next match of \<open>\s+\<close>, which is a
  maximal run of white space; the piece before it is pushed and the scan goes on behind
  the run; when no match is left the rest is pushed, also when it is empty.
\<close>

function split_ws :: "jsstring \<Rightarrow> jsstring list" where
  "split_ws s =
     (case dropWhile (\<lambda>c. \<not> is_space c) s of
        [] \<Rightarrow> [s]
      | c # rest \<Rightarrow> takeWhile (\<lambda>c. \<not> is_space c) s # split_ws (dropWhile is_space rest))"
  by pat_completeness auto
termination
proof (relation "measure length")
  show "wf (measure (length :: jsstring \<Rightarrow> nat))"
    by simp
next
  fix s :: jsstring and c rest
  assume d: "dropWhile (\<lambda>c. \<not> is_space c) s = c # rest"
  have "length (dropWhile is_space rest) \<le> length rest"
    by (rule length_dropWhile_le)
  also have "length rest < length (dropWhile (\<lambda>c. \<not> is_space c) s)"
    by (simp add: d)
  also have "\<dots> \<le> length s"
    by (rule length_dropWhile_le)
  finally show "(dropWhile is_space rest, s) \<in> measure length"
    by simp
qed

declare split_ws.simps [simp del]

text \<open>\<open>s.startsWith(t)\<close> at position 0, and \<open>s.includes(t)\<close> (named \<open>includes_str\<close> here): \<open>t\<close> occurs at some position.\<close>

fun starts_with :: "jsstring \<Rightarrow> jsstring \<Rightarrow> bool" where
  "starts_with s [] = True"
| "starts_with [] (y # t) = False"
| "starts_with (x # s) (y # t) = (x = y \<and> starts_with s t)"

fun includes_str :: "jsstring \<Rightarrow> jsstring \<Rightarrow> bool" where
  "includes_str [] t = (t = [])"
| "includes_str (c # s) t = (starts_with (c # s) t \<or> includes_str s t)"

text \<open>
  \<open>parts.join(sep)\<close> on an array of strings, as the loop of
  \<open>Array.prototype.join\<close>: the separator goes before every element but the first.
\<close>

fun join_from :: "jsstring \<Rightarrow> jsstring \<Rightarrow> nat \<Rightarrow> jsstring list \<Rightarrow> jsstring" where
  "join_from sep r k [] = r"
| "join_from sep r k (x # xs) = join_from sep ((if 0 < k then r @ sep else r) @ x) (Suc k) xs"

definition join :: "jsstring list \<Rightarrow> jsstring \<Rightarrow> jsstring" where
  "join parts sep = join_from sep [] 0 parts"

text \<open>
  \<open>Promise.all\<close> on promises that each resolve (\<open>Some\<close>) or reject (\<open>None\<close>): it
  resolves with all the values in order, and rejects as soon as one of them rejects.
\<close>

fun promise_all :: "'a option list \<Rightarrow> 'a list option" where
  "promise_all [] = Some []"
| "promise_all (None # ps) = None"
| "promise_all (Some v # ps) = (case promise_all ps of None \<Rightarrow> None | Some vs \<Rightarrow> Some (v # vs))"

section \<open>The state of the \<open>App\<close> component and its handlers\<close>

record app_state =
  userInput :: jsstring
  scriptData :: json
  audioUrl :: "jsstring option"
  isLoadingScript :: bool
  isLoadingAudio :: bool
  error :: "jsstring option"

text \<open>The initial values of the six \<open>useState\<close> calls.\<close>

definition initial :: app_state where
  "initial = \<lparr>userInput = [], scriptData = JNull, audioUrl = None,
     isLoadingScript = False, isLoadingAudio = False, error = None\<rparr>"

definition setUserInput :: "jsstring \<Rightarrow> app_state \<Rightarrow> app_state" where
  "setUserInput v s = s\<lparr>userInput := v\<rparr>"

definition setScriptData :: "json \<Rightarrow> app_state \<Rightarrow> app_state" where
  "setScriptData v s = s\<lparr>scriptData := v\<rparr>"

definition setAudioUrl :: "jsstring option \<Rightarrow> app_state \<Rightarrow> app_state" where
  "setAudioUrl v s = s\<lparr>audioUrl := v\<rparr>"

definition setIsLoadingScript :: "bool \<Rightarrow> app_state \<Rightarrow> app_state" where
  "setIsLoadingScript v s = s\<lparr>isLoadingScript := v\<rparr>"

definition setIsLoadingAudio :: "bool \<Rightarrow> app_state \<Rightarrow> app_state" where
  "setIsLoadingAudio v s = s\<lparr>isLoadingAudio := v\<rparr>"

definition setError :: "jsstring option \<Rightarrow> app_state \<Rightarrow> app_state" where
  "setError v s = s\<lparr>error := v\<rparr>"

definition API_BASE_URL :: jsstring where
  "API_BASE_URL = js ''http://127.0.0.1:8000''"

text \<open>
  A call of \<open>fetch\<close>: the address, the options, and as \<open>payload\<close> the object handed
  to \<open>JSON.stringify\<close> for the body.
\<close>

record request =
  url :: jsstring
  http_method :: jsstring
  headers :: "(jsstring \<times> jsstring) list"
  payload :: json

text \<open>What the handlers read of a response: \<open>response.ok\<close> and the promise of \<open>response.json()\<close>.\<close>

record response =
  ok :: bool
  json_body :: "json promise"

subsection \<open>\<open>handleGenerateScript\<close>\<close>

text \<open>
  The handler runs up to \<open>await fetch(...)\<close> (\<open>_start\<close>: the state it leaves and the
  request it issues), and goes on when the fetch has settled (\<open>_finish\<close>), on the state
  of that moment. \<open>script_try\<close> is the \<open>try\<close> block behind the fetch: \<open>Inl m\<close> when
  it throws an error with message \<open>m\<close>, \<open>Inr data\<close> when it reaches \<open>setScriptData(data)\<close>.
\<close>

definition handleGenerateScript_start ::
  "app_state \<Rightarrow> jsstring \<Rightarrow> jsstring \<Rightarrow> app_state \<times> request" where
  "handleGenerateScript_start s sourceType content =
     (let s1 = setError None s;
          s2 = setScriptData JNull s1;
          s3 = setAudioUrl None s2;
          s4 = setIsLoadingScript True s3
      in (s4, \<lparr>url = API_BASE_URL @ js ''/generate-script'',
               http_method = js ''POST'',
               headers = [(js ''Content-Type'', js ''application/json'')],
               payload = JObj [(js ''source_type'', JStr sourceType),
                               (js ''content'', JStr content)]\<rparr>))"

definition script_try :: "engine \<Rightarrow> response promise \<Rightarrow> json promise" where
  "script_try e fetched =
     (case fetched of
        Inl m \<Rightarrow> Inl m
      | Inr response \<Rightarrow>
          if \<not> ok response then
            (case json_body response of
               Inl m \<Rightarrow> Inl m
             | Inr errData \<Rightarrow>
                 (case get_prop e errData (js ''detail'') of
                    Inl m \<Rightarrow> Inl m
                  | Inr detail \<Rightarrow>
                      (case ToString e (if truthy detail then detail
                                        else Some (JStr (js ''Failed to generate script.''))) of
                         Inl m \<Rightarrow> Inl m
                       | Inr message \<Rightarrow> Inl message)))
          else json_body response)"

definition handleGenerateScript_finish ::
  "engine \<Rightarrow> app_state \<Rightarrow> response promise \<Rightarrow> app_state" where
  "handleGenerateScript_finish e s fetched =
     (let s1 = (case script_try e fetched of
                  Inr data \<Rightarrow> setScriptData data s
                | Inl message \<Rightarrow> setError (Some message) s)
      in setIsLoadingScript False s1)"

text \<open>The whole handler when nothing else happens while the request is pending.\<close>

definition handleGenerateScript ::
  "engine \<Rightarrow> (request \<Rightarrow> response promise) \<Rightarrow> app_state \<Rightarrow> jsstring \<Rightarrow> jsstring \<Rightarrow> app_state" where
  "handleGenerateScript e net s sourceType content =
     (let (s1, req) = handleGenerateScript_start s sourceType content
      in handleGenerateScript_finish e s1 (net req))"

subsection \<open>\<open>handleSubmitFromText\<close>\<close>

text \<open>
  The handler returns the state it leaves and the request it has issued, if any; the
  request's completion is \<open>handleGenerateScript_finish\<close>.
\<close>

definition handleSubmitFromText :: "app_state \<Rightarrow> app_state \<times> request option" where
  "handleSubmitFromText s =
     (if userInput s = [] then
        (setError (Some (js ''Please provide input in the text area.'')) s, None)
      else
        (let sourceType =
               (if includes_str (userInput s) (js ''github.com/'') then js ''github''
                else if 50 < length (split_ws (userInput s)) then js ''script''
                else js ''topic'');
             (s1, req) = handleGenerateScript_start s sourceType (userInput s)
         in (s1, Some req)))"

subsection \<open>\<open>handleFileChange\<close>\<close>

text \<open>
  A selected file: its name and what \<open>readAsText\<close> ends with, the text (\<open>onload\<close>)
  or \<open>None\<close> (\<open>onerror\<close>).
\<close>

record js_file =
  file_name :: jsstring
  text_result :: "jsstring option"

definition fileContentPromise :: "js_file \<Rightarrow> jsstring option" where
  "fileContentPromise f =
     (case text_result f of
        Some result \<Rightarrow> Some (js ''--- CONTENT FROM '' @ file_name f @ js '' ---'' @ [0x000A] @ result)
      | None \<Rightarrow> None)"

text \<open>
  The handler returns the state it leaves, the request it has issued, if any, and whether
  it ended in a rejection that nothing catches (the handler has no \<open>try\<close>).
  \<open>files = None\<close> is a \<open>null\<close> file list. The state is the one the handler
  finds when it goes on: at the event for the two checks, and when all reads have
  settled for the rest, which reads no state before it enters \<open>handleGenerateScript\<close>.
\<close>

definition handleFileChange ::
  "app_state \<Rightarrow> js_file list option \<Rightarrow> app_state \<times> request option \<times> bool" where
  "handleFileChange s files =
     (case files of
        None \<Rightarrow> (setError (Some (js ''Please upload at least one file.'')) s, None, False)
      | Some fs \<Rightarrow>
          if length fs = 0 then
            (setError (Some (js ''Please upload at least one file.'')) s, None, False)
          else
            (case promise_all (map fileContentPromise fs) of
               None \<Rightarrow> (s, None, True)
             | Some parts \<Rightarrow>
                 (let content = join parts [0x000A, 0x000A];
                      (s1, req) = handleGenerateScript_start s (js ''file'') content
                  in (s1, Some req, False))))"

subsection \<open>\<open>handleGenerateAudio\<close>\<close>

text \<open>
  \<open>has_script\<close> is the negation of the guard \<open>!scriptData || !scriptData.script\<close>;
  \<open>script_of\<close> is \<open>scriptData.script\<close> where the guard has let it through.
\<close>

definition script_of :: "json \<Rightarrow> json option" where
  "script_of d = (case d of JObj kvs \<Rightarrow> map_of kvs (js ''script'') | _ \<Rightarrow> None)"

definition has_script :: "app_state \<Rightarrow> bool" where
  "has_script s = (truthy (Some (scriptData s)) \<and> truthy (script_of (scriptData s)))"

definition handleGenerateAudio_start :: "app_state \<Rightarrow> app_state \<times> request option" where
  "handleGenerateAudio_start s =
     (if \<not> has_script s then
        (setError (Some (js ''No script available to generate audio from.'')) s, None)
      else
        (let s1 = setError None s;
             s2 = setAudioUrl None s1;
             s3 = setIsLoadingAudio True s2
         in (s3, Some \<lparr>url = API_BASE_URL @ js ''/generate-audio'',
                       http_method = js ''POST'',
                       headers = [(js ''Content-Type'', js ''application/json'')],
                       payload = JObj (case script_of (scriptData s) of
                                         Some v \<Rightarrow> [(js ''script'', v)]
                                       | None \<Rightarrow> [])\<rparr>)))"

definition audio_try :: "engine \<Rightarrow> response promise \<Rightarrow> jsstring promise" where
  "audio_try e fetched =
     (case fetched of
        Inl m \<Rightarrow> Inl m
      | Inr response \<Rightarrow>
          if \<not> ok response then
            (case json_body response of
               Inl m \<Rightarrow> Inl m
             | Inr errData \<Rightarrow>
                 (case get_prop e errData (js ''detail'') of
                    Inl m \<Rightarrow> Inl m
                  | Inr detail \<Rightarrow>
                      (case ToString e (if truthy detail then detail
                                        else Some (JStr (js ''Failed to generate audio.''))) of
                         Inl m \<Rightarrow> Inl m
                       | Inr message \<Rightarrow> Inl message)))
          else
            (case json_body response of
               Inl m \<Rightarrow> Inl m
             | Inr data \<Rightarrow>
                 (case get_prop e data (js ''audio_url'') of
                    Inl m \<Rightarrow> Inl m
                  | Inr audio_url \<Rightarrow>
                      (case ToString e audio_url of
                         Inl m \<Rightarrow> Inl m
                       | Inr path \<Rightarrow> Inr (API_BASE_URL @ path)))))"

definition handleGenerateAudio_finish ::
  "engine \<Rightarrow> app_state \<Rightarrow> response promise \<Rightarrow> app_state" where
  "handleGenerateAudio_finish e s fetched =
     (let s1 = (case audio_try e fetched of
                  Inr u \<Rightarrow> setAudioUrl (Some u) s
                | Inl message \<Rightarrow> setError (Some message) s)
      in setIsLoadingAudio False s1)"

text \<open>The whole handler when nothing else happens while the request is pending.\<close>

definition handleGenerateAudio ::
  "engine \<Rightarrow> (request \<Rightarrow> response promise) \<Rightarrow> app_state \<Rightarrow> app_state" where
  "handleGenerateAudio e net s =
     (case handleGenerateAudio_start s of
        (s1, None) \<Rightarrow> s1
      | (s1, Some req) \<Rightarrow> handleGenerateAudio_finish e s1 (net req))"

section \<open>What the specification speaks of\<close>

text \<open>
  The specification's "contains the literal substring": the text occurs somewhere in
  the input.
\<close>

definition contains_substring :: "jsstring \<Rightarrow> jsstring \<Rightarrow> bool" where
  "contains_substring s t = (\<exists>before after. s = before @ t @ after)"

text \<open>
  The specification's "whitespace-delimited tokens": the maximal runs of code units that
  are not white space.
\<close>

function tokens :: "jsstring \<Rightarrow> jsstring list" where
  "tokens s =
     (case dropWhile is_space s of
        [] \<Rightarrow> []
      | c # rest \<Rightarrow> (c # takeWhile (\<lambda>x. \<not> is_space x) rest) # tokens (dropWhile (\<lambda>x. \<not> is_space x) rest))"
  by pat_completeness auto
termination
proof (relation "measure length")
  show "wf (measure (length :: jsstring \<Rightarrow> nat))"
    by simp
next
  fix s :: jsstring and c rest
  assume d: "dropWhile is_space s = c # rest"
  have "length (dropWhile (\<lambda>x. \<not> is_space x) rest) \<le> length rest"
    by (rule length_dropWhile_le)
  also have "length rest < length (dropWhile is_space s)"
    by (simp add: d)
  also have "\<dots> \<le> length s"
    by (rule length_dropWhile_le)
  finally show "(dropWhile (\<lambda>x. \<not> is_space x) rest, s) \<in> measure length"
    by simp
qed

declare tokens.simps [simp del]

text \<open>The input begins, or ends, with white space.\<close>

definition starts_blank :: "jsstring \<Rightarrow> bool" where
  "starts_blank s = (case s of [] \<Rightarrow> False | c # rest \<Rightarrow> is_space c)"

definition ends_blank :: "jsstring \<Rightarrow> bool" where
  "ends_blank s = starts_blank (rev s)"

text \<open>
  The sections of the combined payload, for files given by name and text: a header line
  and the text of the file; two line feeds (a blank line) between one section and the next.
\<close>

definition file_section :: "jsstring \<Rightarrow> jsstring \<Rightarrow> jsstring" where
  "file_section n t = js ''--- CONTENT FROM '' @ n @ js '' ---'' @ [0x000A] @ t"

fun combined :: "(jsstring \<times> jsstring) list \<Rightarrow> jsstring" where
  "combined [] = []"
| "combined [(n, t)] = file_section n t"
| "combined ((n, t) # f # fs) = file_section n t @ [0x000A, 0x000A] @ combined (f # fs)"

text \<open>A selected file of the given name whose read ends with the given text.\<close>

definition readable :: "jsstring \<times> jsstring \<Rightarrow> js_file" where
  "readable nt = \<lparr>file_name = fst nt, text_result = Some (snd nt)\<rparr>"

text \<open>
  No script is present: there is no script result, or it has no \<open>script\<close> field, or
  the field is the empty string.
\<close>

definition no_script :: "app_state \<Rightarrow> bool" where
  "no_script s =
     (scriptData s = JNull \<or> script_of (scriptData s) = None
      \<or> script_of (scriptData s) = Some (JStr []))"

text \<open>
  A failed attempt: the fetch rejects (network or transport failure), or the response
  is not a success.
\<close>

definition failed :: "response promise \<Rightarrow> bool" where
  "failed fetched = (case fetched of Inl m \<Rightarrow> True | Inr r \<Rightarrow> \<not> ok r)"

section \<open>Inputs of the worked examples\<close>

text \<open>
  An engine to run the examples with: V8's wording of the \<open>TypeError\<close>, and the text
  of a plain object for whatever is not a string. No example converts anything but
  strings, and the general theorems hold for every engine.
\<close>

definition example_engine :: engine where
  "example_engine =
     \<lparr>null_read = (\<lambda>k. js ''Cannot read properties of null (reading '' @ [0x0027] @ k
                          @ [0x0027] @ js '')''),
      to_text = (\<lambda>v. Inr (js ''[object Object]''))\<rparr>"

text \<open>
  Three backends: one that refuses every request with the given \<open>detail\<close>, one that
  cannot be reached, and one that answers every request with the given audio path.
\<close>

definition refusing :: "jsstring \<Rightarrow> request \<Rightarrow> response promise" where
  "refusing d req = Inr \<lparr>ok = False, json_body = Inr (JObj [(js ''detail'', JStr d)])\<rparr>"

definition unreachable :: "request \<Rightarrow> response promise" where
  "unreachable req = Inl (js ''Failed to fetch'')"

definition serving_audio :: "jsstring \<Rightarrow> request \<Rightarrow> response promise" where
  "serving_audio p req = Inr \<lparr>ok = True, json_body = Inr (JObj [(js ''audio_url'', JStr p)])\<rparr>"

text \<open>A state that holds a script result, and one with an empty script and an audio result.\<close>

definition scripted :: app_state where
  "scripted = initial\<lparr>scriptData :=
     JObj [(js ''script'', JStr (js ''Hello and welcome.'')),
           (js ''title'', JStr (js ''Welcome'')),
           (js ''description'', JStr (js ''An introduction'')),
           (js ''tags'', JArr [JStr (js ''intro'')])]\<rparr>"

definition stale_audio :: app_state where
  "stale_audio = initial\<lparr>scriptData := JObj [(js ''script'', JStr [])],
     audioUrl := Some (js ''http://127.0.0.1:8000/audio/old.wav'')\<rparr>"

text \<open>A blank, then fifty one-letter words separated by single blanks.\<close>

definition fifty_after_blank :: jsstring where
  "fifty_after_blank = 0x0020 # concat (replicate 49 [0x0061, 0x0020]) @ [0x0061]"

section \<open>Properties\<close>

lemma starts_with_iff: "starts_with s t \<longleftrightarrow> (\<exists>after. s = t @ after)"
  by (induction s t rule: starts_with.induct) auto

lemma includes_iff: "includes_str s t \<longleftrightarrow> contains_substring s t"
proof (induction s)
  case Nil
  show ?case by (simp add: contains_substring_def)
next
  case (Cons c s)
  have "contains_substring (c # s) t \<longleftrightarrow>
        (\<exists>after. c # s = t @ after) \<or> contains_substring s t"
    unfolding contains_substring_def
  proof (intro iffI)
    assume "\<exists>before after. c # s = before @ t @ after"
    then obtain before after where eq: "c # s = before @ t @ after"
      by blast
    show "(\<exists>after. c # s = t @ after) \<or> (\<exists>before after. s = before @ t @ after)"
    proof (cases before)
      case Nil
      with eq show ?thesis by auto
    next
      case (Cons b before')
      with eq have "s = before' @ t @ after" by simp
      then show ?thesis by blast
    qed
  next
    assume "(\<exists>after. c # s = t @ after) \<or> (\<exists>before after. s = before @ t @ after)"
    then show "\<exists>before after. c # s = before @ t @ after"
    proof
      assume "\<exists>after. c # s = t @ after"
      then obtain after where "c # s = [] @ t @ after" by auto
      then show ?thesis by blast
    next
      assume "\<exists>before after. s = before @ t @ after"
      then obtain before after where "c # s = (c # before) @ t @ after" by auto
      then show ?thesis by blast
    qed
  qed
  with Cons show ?case
    by (simp add: starts_with_iff del: starts_with.simps)
qed

subsection \<open>Pieces of \<open>split\<close> and tokens\<close>

lemma tokens_Nil: "tokens [] = []"
  by (simp add: tokens.simps)

lemma tokens_dropWhile: "tokens (dropWhile is_space s) = tokens s"
  by (subst (1 2) tokens.simps) simp

lemma tokens_blank: "is_space c \<Longrightarrow> tokens (c # s) = tokens s"
  using tokens_dropWhile [of "c # s"] tokens_dropWhile [of s] by simp

lemma tokens_solid:
  "\<not> is_space c \<Longrightarrow>
   tokens (c # s) = (c # takeWhile (\<lambda>x. \<not> is_space x) s) # tokens (dropWhile (\<lambda>x. \<not> is_space x) s)"
  by (subst tokens.simps) simp

lemma split_ws_solid_only:
  "dropWhile (\<lambda>c. \<not> is_space c) s = [] \<Longrightarrow> split_ws s = [s]"
  by (subst split_ws.simps) (simp del: dropWhile_eq_Nil_conv)

lemma split_ws_cut:
  "dropWhile (\<lambda>c. \<not> is_space c) s = c # rest \<Longrightarrow>
   split_ws s = takeWhile (\<lambda>c. \<not> is_space c) s # split_ws (dropWhile is_space rest)"
  by (subst split_ws.simps) simp

lemma starts_blank_dropWhile: "\<not> starts_blank (dropWhile is_space s)"
  by (induction s) (auto simp: starts_blank_def)

lemma ends_blank_Cons: "s \<noteq> [] \<Longrightarrow> ends_blank (c # s) = ends_blank s"
  by (cases s rule: rev_cases) (auto simp: ends_blank_def starts_blank_def)

lemma ends_blank_Cons_mem: "x \<in> set s \<Longrightarrow> ends_blank (c # s) = ends_blank s"
  by (rule ends_blank_Cons) auto

lemma ends_blank_single: "ends_blank [c] = is_space c"
  by (simp add: ends_blank_def starts_blank_def)

lemma ends_blank_all_blank:
  "dropWhile is_space s = [] \<Longrightarrow> is_space c \<Longrightarrow> ends_blank (c # s)"
  by (induction s arbitrary: c) (auto simp: ends_blank_single ends_blank_Cons split: if_splits)

lemma ends_blank_dropWhile:
  "dropWhile P s \<noteq> [] \<Longrightarrow> ends_blank (dropWhile P s) = ends_blank s"
  by (induction s) (auto simp: ends_blank_Cons_mem)

text \<open>Pieces of an input that does not begin with white space.\<close>

lemma length_split_ws_solid:
  "\<not> starts_blank s \<Longrightarrow>
   length (split_ws s) = (if s = [] then 1 else length (tokens s) + (if ends_blank s then 1 else 0))"
proof (induction s rule: length_induct)
  case (1 s)
  show ?case
  proof (cases s)
    case Nil
    then show ?thesis by (simp add: split_ws_solid_only)
  next
    case (Cons x xs)
    with 1(2) have x: "\<not> is_space x" by (simp add: starts_blank_def)
    show ?thesis
    proof (cases "dropWhile (\<lambda>c. \<not> is_space c) xs")
      case Nil
      then have all: "\<forall>y \<in> set xs. \<not> is_space y"
        by (simp add: dropWhile_eq_Nil_conv)
      have "\<not> ends_blank (x # xs)"
        using all x by (cases xs rule: rev_cases) (auto simp: ends_blank_def starts_blank_def)
      moreover have "split_ws (x # xs) = [x # xs]"
        using Nil x by (simp add: split_ws_solid_only)
      moreover have "tokens (x # xs) = [x # xs]"
        unfolding tokens_solid [OF x] Nil tokens_Nil using all by simp
      ultimately show ?thesis using Cons by simp
    next
      case (Cons c rest)
      let ?s' = "dropWhile is_space rest"
      have c: "is_space c"
        using Cons hd_dropWhile [of "\<lambda>c. \<not> is_space c" xs] by simp
      have cut: "dropWhile (\<lambda>c. \<not> is_space c) (x # xs) = c # rest"
        using Cons x by simp
      have len: "length ?s' < length s"
      proof -
        have "length ?s' \<le> length rest" by (rule length_dropWhile_le)
        also have "\<dots> < length (dropWhile (\<lambda>c. \<not> is_space c) xs)" by (simp add: Cons)
        also have "\<dots> \<le> length xs" by (rule length_dropWhile_le)
        finally show ?thesis using \<open>s = x # xs\<close> by simp
      qed
      have ih: "length (split_ws ?s') =
                (if ?s' = [] then 1 else length (tokens ?s') + (if ends_blank ?s' then 1 else 0))"
        using 1(1) len starts_blank_dropWhile by blast
      have sp: "length (split_ws (x # xs)) = Suc (length (split_ws ?s'))"
        by (simp add: split_ws_cut [OF cut])
      have tk: "length (tokens (x # xs)) = Suc (length (tokens ?s'))"
        using x c by (simp add: tokens_solid Cons tokens_blank tokens_dropWhile)
      have eb1: "ends_blank (x # xs) = ends_blank (c # rest)"
        using ends_blank_dropWhile [of "\<lambda>c. \<not> is_space c" "x # xs"] cut by simp
      have eb: "ends_blank (x # xs) = (if ?s' = [] then True else ends_blank ?s')"
      proof (cases "?s' = []")
        case True
        then show ?thesis using eb1 c ends_blank_all_blank by simp
      next
        case False
        then have "rest \<noteq> []" by auto
        then have "ends_blank (c # rest) = ends_blank rest" by (rule ends_blank_Cons)
        also have "\<dots> = ends_blank ?s'" using False by (simp add: ends_blank_dropWhile)
        finally show ?thesis using eb1 False by (simp del: dropWhile_eq_Nil_conv)
      qed
      show ?thesis
        using sp tk eb ih \<open>s = x # xs\<close>
        by (cases "?s' = []") (simp_all add: tokens_Nil del: dropWhile_eq_Nil_conv)
    qed
  qed
qed

text \<open>Pieces of any non-empty input.\<close>

lemma length_split_ws:
  assumes "s \<noteq> []"
  shows "length (split_ws s) =
         length (tokens s) + (if starts_blank s then 1 else 0) + (if ends_blank s then 1 else 0)"
proof (cases "starts_blank s")
  case False
  with assms show ?thesis by (simp add: length_split_ws_solid)
next
  case True
  then obtain c rest where s: "s = c # rest" and c: "is_space c"
    by (auto simp: starts_blank_def split: list.splits)
  let ?s' = "dropWhile is_space rest"
  have "dropWhile (\<lambda>c. \<not> is_space c) s = c # rest"
    using s c by simp
  then have sp: "length (split_ws s) = Suc (length (split_ws ?s'))"
    by (simp add: split_ws_cut)
  have tk: "tokens s = tokens ?s'"
    using s c by (simp add: tokens_blank tokens_dropWhile)
  have ih: "length (split_ws ?s') =
            (if ?s' = [] then 1 else length (tokens ?s') + (if ends_blank ?s' then 1 else 0))"
    by (rule length_split_ws_solid) (rule starts_blank_dropWhile)
  have eb: "ends_blank s = (if ?s' = [] then True else ends_blank ?s')"
  proof (cases "?s' = []")
    case True
    then show ?thesis using s c ends_blank_all_blank by simp
  next
    case False
    then have "rest \<noteq> []" by auto
    then have "ends_blank (c # rest) = ends_blank rest" by (rule ends_blank_Cons)
    also have "\<dots> = ends_blank ?s'" using False by (simp add: ends_blank_dropWhile)
    finally show ?thesis using s False by (simp del: dropWhile_eq_Nil_conv)
  qed
  show ?thesis
    using sp tk ih eb True
    by (cases "?s' = []") (simp_all add: tokens_Nil del: dropWhile_eq_Nil_conv)
qed

subsection \<open>The setters\<close>

lemmas setters =
  setUserInput_def setScriptData_def setAudioUrl_def setIsLoadingScript_def
  setIsLoadingAudio_def setError_def

subsection \<open>Classification of the text input\<close>

text \<open>
  C2. An input that contains the literal substring \<open>github.com/\<close> is sent with source
  type \<open>github\<close>, whatever its token count: the test comes before the count.
\<close>

theorem submit_github:
  assumes "contains_substring (userInput s) (js ''github.com/'')"
  shows "map_option payload (snd (handleSubmitFromText s)) =
         Some (JObj [(js ''source_type'', JStr (js ''github'')),
                     (js ''content'', JStr (userInput s))])"
proof -
  from assms have inc: "includes_str (userInput s) (js ''github.com/'')"
    by (simp add: includes_iff)
  have "userInput s \<noteq> []"
  proof
    assume "userInput s = []"
    with inc show False by (simp add: js_def)
  qed
  with inc show ?thesis
    by (simp add: handleSubmitFromText_def handleGenerateScript_start_def Let_def)
qed

text \<open>C2 at the example input of the page that names a repository.\<close>

theorem submit_github_witness:
  "contains_substring (js ''https://github.com/google/generative-ai-docs'') (js ''github.com/'')
   \<and> map_option payload (snd (handleSubmitFromText
         (setUserInput (js ''https://github.com/google/generative-ai-docs'') initial))) =
       Some (JObj [(js ''source_type'', JStr (js ''github'')),
                   (js ''content'', JStr (js ''https://github.com/google/generative-ai-docs''))])"
proof -
  have inc: "includes_str (js ''https://github.com/google/generative-ai-docs'') (js ''github.com/'')"
    by code_simp
  then have h: "contains_substring
      (userInput (setUserInput (js ''https://github.com/google/generative-ai-docs'') initial))
      (js ''github.com/'')"
    by (simp add: includes_iff setUserInput_def)
  show ?thesis
    using submit_github [OF h] h by (simp add: setUserInput_def)
qed

text \<open>
  C1, as the code has it. A non-empty input without \<open>github.com/\<close> is sent as
  \<open>script\<close> exactly when the number of its tokens, plus one if it begins with white
  space, plus one if it ends with white space, exceeds 50, and as \<open>topic\<close> otherwise:
  \<open>split\<close> also returns the empty piece before a leading and behind a trailing run
  of white space.
\<close>

theorem submit_pieces:
  assumes "userInput s \<noteq> []"
    and "\<not> contains_substring (userInput s) (js ''github.com/'')"
  shows "map_option payload (snd (handleSubmitFromText s)) =
         Some (JObj [(js ''source_type'',
                      JStr (if 50 < length (tokens (userInput s))
                                    + (if starts_blank (userInput s) then 1 else 0)
                                    + (if ends_blank (userInput s) then 1 else 0)
                            then js ''script'' else js ''topic'')),
                     (js ''content'', JStr (userInput s))])"
proof -
  from assms(2) have inc: "\<not> includes_str (userInput s) (js ''github.com/'')"
    by (simp add: includes_iff)
  show ?thesis
    using assms(1) inc length_split_ws [OF assms(1)]
    by (simp add: handleSubmitFromText_def handleGenerateScript_start_def Let_def)
qed

text \<open>C1 as amended, at four words followed by a blank: five pieces, sent as a topic.\<close>

theorem submit_pieces_witness:
  "userInput (setUserInput (js ''Pomodoro Timer App Explained '') initial) \<noteq> []
   \<and> \<not> contains_substring (userInput (setUserInput (js ''Pomodoro Timer App Explained '') initial))
         (js ''github.com/'')
   \<and> map_option payload (snd (handleSubmitFromText
         (setUserInput (js ''Pomodoro Timer App Explained '') initial))) =
       Some (JObj [(js ''source_type'', JStr (js ''topic'')),
                   (js ''content'', JStr (js ''Pomodoro Timer App Explained ''))])"
proof -
  let ?s = "setUserInput (js ''Pomodoro Timer App Explained '') initial"
  have h1: "userInput ?s \<noteq> []"
    by (simp add: setUserInput_def js_def)
  have "\<not> includes_str (userInput ?s) (js ''github.com/'')"
    by code_simp
  then have h2: "\<not> contains_substring (userInput ?s) (js ''github.com/'')"
    by (simp add: includes_iff)
  have n: "length (tokens (userInput ?s)) + (if starts_blank (userInput ?s) then 1 else 0)
             + (if ends_blank (userInput ?s) then 1 else 0) = 5"
    by code_simp
  have u: "userInput ?s = js ''Pomodoro Timer App Explained ''"
    by (simp add: setUserInput_def)
  show ?thesis
    using submit_pieces [OF h1 h2] h1 h2 unfolding n unfolding u by simp
qed

text \<open>
  C1 as stated fails: fifty tokens behind a leading blank do not exceed 50, and the input
  is sent as \<open>script\<close>.
\<close>

theorem submit_token_count_counterexample:
  "userInput (setUserInput fifty_after_blank initial) \<noteq> []
   \<and> \<not> contains_substring (userInput (setUserInput fifty_after_blank initial)) (js ''github.com/'')
   \<and> \<not> 50 < length (tokens (userInput (setUserInput fifty_after_blank initial)))
   \<and> map_option payload (snd (handleSubmitFromText (setUserInput fifty_after_blank initial))) =
       Some (JObj [(js ''source_type'', JStr (js ''script'')),
                   (js ''content'', JStr fifty_after_blank)])"
proof -
  have u: "userInput (setUserInput fifty_after_blank initial) = fifty_after_blank"
    by (simp add: setUserInput_def)
  have ne: "fifty_after_blank \<noteq> []"
    by (simp add: fifty_after_blank_def)
  have inc: "\<not> includes_str fifty_after_blank (js ''github.com/'')"
    by code_simp
  have tk: "length (tokens fifty_after_blank) = 50"
    by code_simp
  have sp: "length (split_ws fifty_after_blank) = 51"
    by code_simp
  show ?thesis
    unfolding u using ne inc tk sp
    by (simp add: handleSubmitFromText_def handleGenerateScript_start_def Let_def u
        includes_iff [symmetric])
qed

subsection \<open>Entering \<open>handleGenerateScript\<close>\<close>

text \<open>
  C3. When \<open>handleGenerateScript\<close> is entered, the state that goes with the issued
  request has no error, no script result and no audio result, and the script-loading
  flag is set: the earlier results are cleared before the request is pending, not when
  it completes.
\<close>

theorem generate_script_start_clears:
  "error (fst (handleGenerateScript_start s sourceType content)) = None
   \<and> scriptData (fst (handleGenerateScript_start s sourceType content)) = JNull
   \<and> audioUrl (fst (handleGenerateScript_start s sourceType content)) = None
   \<and> isLoadingScript (fst (handleGenerateScript_start s sourceType content)) = True
   \<and> snd (handleGenerateScript_start s sourceType content) =
       \<lparr>url = js ''http://127.0.0.1:8000/generate-script'',
        http_method = js ''POST'',
        headers = [(js ''Content-Type'', js ''application/json'')],
        payload = JObj [(js ''source_type'', JStr sourceType), (js ''content'', JStr content)]\<rparr>"
  by (simp add: handleGenerateScript_start_def Let_def setters API_BASE_URL_def js_def)

subsection \<open>Helper facts on the handlers\<close>

lemma no_script_guard: "no_script s \<Longrightarrow> \<not> has_script s"
  by (auto simp: no_script_def has_script_def script_of_def)

lemma join_from_later:
  "0 < k \<Longrightarrow> join_from sep r k xs = r @ concat (map (\<lambda>x. sep @ x) xs)"
  by (induction xs arbitrary: r k) simp_all

lemma join_Cons: "join (x # xs) sep = x @ concat (map (\<lambda>y. sep @ y) xs)"
  by (simp add: join_def join_from_later)

lemma combined_Cons:
  "combined (f # fs) =
     file_section (fst f) (snd f) @ concat (map (\<lambda>g. [0x000A, 0x000A] @ file_section (fst g) (snd g)) fs)"
  by (induction fs arbitrary: f) (auto simp: case_prod_beta split: prod.splits)

lemma promise_all_readable:
  "promise_all (map fileContentPromise (map readable nts)) =
     Some (map (\<lambda>f. file_section (fst f) (snd f)) nts)"
  by (induction nts) (simp_all add: fileContentPromise_def readable_def file_section_def)

lemma promise_all_failure:
  "None \<in> set ps \<Longrightarrow> promise_all ps = None"
  by (induction ps rule: promise_all.induct) (auto split: option.splits)

subsection \<open>Uploaded files\<close>

text \<open>
  C6. For every non-empty selection of files (each read ending with its text),
  \<open>handleFileChange\<close> sends one payload: in selection order, for each file the header
  line \<open>--- CONTENT FROM <filename> ---\<close> followed by the full text of the file, with a
  blank line (two line feeds) between consecutive sections; the source type is \<open>file\<close>
  whatever the files contain.
\<close>

theorem file_change_payload:
  assumes "nts \<noteq> []"
  shows "map_option payload (fst (snd (handleFileChange s (Some (map readable nts))))) =
         Some (JObj [(js ''source_type'', JStr (js ''file'')),
                     (js ''content'', JStr (combined nts))])"
proof -
  from assms obtain f fs where nts: "nts = f # fs"
    by (cases nts) auto
  have "join (map (\<lambda>f. file_section (fst f) (snd f)) nts) [0x000A, 0x000A] = combined nts"
    unfolding nts by (simp add: join_Cons combined_Cons comp_def)
  then show ?thesis
    using assms
    by (simp add: handleFileChange_def promise_all_readable handleGenerateScript_start_def
        Let_def del: map_map)
qed

text \<open>C6 at the specification's example, \<open>a.txt\<close> with \<open>hello\<close> and \<open>b.txt\<close> with \<open>world\<close>.\<close>

theorem file_change_payload_witness:
  "[(js ''a.txt'', js ''hello''), (js ''b.txt'', js ''world'')] \<noteq> []
   \<and> map_option payload (fst (snd (handleFileChange initial
         (Some (map readable [(js ''a.txt'', js ''hello''), (js ''b.txt'', js ''world'')]))))) =
       Some (JObj [(js ''source_type'', JStr (js ''file'')),
                   (js ''content'',
                    JStr (js ''--- CONTENT FROM a.txt ---'' @ [0x000A] @ js ''hello''
                          @ [0x000A, 0x000A]
                          @ js ''--- CONTENT FROM b.txt ---'' @ [0x000A] @ js ''world''))])"
proof -
  have h: "[(js ''a.txt'', js ''hello''), (js ''b.txt'', js ''world'')] \<noteq> []"
    by simp
  show ?thesis
    using file_change_payload [OF h, of initial]
    by (simp add: file_section_def js_def)
qed

text \<open>
  C5 at a selection whose second read fails: no request is issued, but the state is left
  as it was, with no error message set, and the rejection is caught by nothing.
\<close>

theorem file_read_failure_not_surfaced:
  "handleFileChange initial
     (Some [\<lparr>file_name = js ''a.txt'', text_result = Some (js ''hello'')\<rparr>,
            \<lparr>file_name = js ''b.txt'', text_result = None\<rparr>])
   = (initial, None, True)
   \<and> error initial = None"
  by (simp add: handleFileChange_def fileContentPromise_def initial_def)

subsection \<open>Validation failures\<close>

text \<open>
  C7. Submitting an empty text, selecting no file, and asking for audio while no script
  is present each set the error message at once and issue no request.
\<close>

theorem validation_failures:
  "(userInput s = [] \<longrightarrow>
      handleSubmitFromText s =
        (s\<lparr>error := Some (js ''Please provide input in the text area.'')\<rparr>, None))
   \<and> (files = None \<or> files = Some [] \<longrightarrow>
      handleFileChange s files =
        (s\<lparr>error := Some (js ''Please upload at least one file.'')\<rparr>, None, False))
   \<and> (no_script s \<longrightarrow>
      handleGenerateAudio_start s =
        (s\<lparr>error := Some (js ''No script available to generate audio from.'')\<rparr>, None))"
  by (auto simp: handleSubmitFromText_def handleFileChange_def handleGenerateAudio_start_def
      setError_def dest: no_script_guard)

text \<open>C7 in the initial state: empty text, an empty selection, no script.\<close>

theorem validation_failures_witness:
  "userInput initial = [] \<and> no_script initial
   \<and> handleSubmitFromText initial =
        (initial\<lparr>error := Some (js ''Please provide input in the text area.'')\<rparr>, None)
   \<and> handleFileChange initial (Some []) =
        (initial\<lparr>error := Some (js ''Please upload at least one file.'')\<rparr>, None, False)
   \<and> handleGenerateAudio_start initial =
        (initial\<lparr>error := Some (js ''No script available to generate audio from.'')\<rparr>, None)"
proof -
  have h1: "userInput initial = []"
    by (simp add: initial_def)
  have h2: "no_script initial"
    by (simp add: no_script_def initial_def)
  show ?thesis
    using validation_failures [of initial "Some []"] h1 h2 by simp
qed

subsection \<open>Outcomes of the \<open>try\<close> blocks\<close>

lemma script_try_failed: "failed fetched \<Longrightarrow> \<exists>m. script_try e fetched = Inl m"
  by (auto simp: failed_def script_try_def split: sum.splits)

lemma audio_try_failed: "failed fetched \<Longrightarrow> \<exists>m. audio_try e fetched = Inl m"
  by (auto simp: failed_def audio_try_def split: sum.splits)

lemma script_finish_thrown:
  "script_try e fetched = Inl m \<Longrightarrow>
   handleGenerateScript_finish e s fetched = s\<lparr>isLoadingScript := False, error := Some m\<rparr>"
  by (simp add: handleGenerateScript_finish_def setters)

lemma audio_finish_thrown:
  "audio_try e fetched = Inl m \<Longrightarrow>
   handleGenerateAudio_finish e s fetched = s\<lparr>isLoadingAudio := False, error := Some m\<rparr>"
  by (simp add: handleGenerateAudio_finish_def setters)

lemma try_rejected:
  "script_try e (Inl m) = Inl m" "audio_try e (Inl m) = Inl m"
  by (simp_all add: script_try_def audio_try_def)

lemma try_unparsed:
  "\<not> ok r \<Longrightarrow> json_body r = Inl m \<Longrightarrow> script_try e (Inr r) = Inl m"
  "\<not> ok r \<Longrightarrow> json_body r = Inl m \<Longrightarrow> audio_try e (Inr r) = Inl m"
  by (simp_all add: script_try_def audio_try_def)

lemma try_detail:
  "\<not> ok r \<Longrightarrow> json_body r = Inr (JObj kvs) \<Longrightarrow> map_of kvs (js ''detail'') = Some (JStr d) \<Longrightarrow>
   d \<noteq> [] \<Longrightarrow> script_try e (Inr r) = Inl d"
  "\<not> ok r \<Longrightarrow> json_body r = Inr (JObj kvs) \<Longrightarrow> map_of kvs (js ''detail'') = Some (JStr d) \<Longrightarrow>
   d \<noteq> [] \<Longrightarrow> audio_try e (Inr r) = Inl d"
  by (simp_all add: script_try_def audio_try_def)

lemma try_fallback:
  "\<not> ok r \<Longrightarrow> json_body r = Inr (JObj kvs) \<Longrightarrow>
   map_of kvs (js ''detail'') = None \<or> map_of kvs (js ''detail'') = Some (JStr []) \<Longrightarrow>
   script_try e (Inr r) = Inl (js ''Failed to generate script.'')"
  "\<not> ok r \<Longrightarrow> json_body r = Inr (JObj kvs) \<Longrightarrow>
   map_of kvs (js ''detail'') = None \<or> map_of kvs (js ''detail'') = Some (JStr []) \<Longrightarrow>
   audio_try e (Inr r) = Inl (js ''Failed to generate audio.'')"
  by (auto simp: script_try_def audio_try_def)

subsection \<open>Failed attempts\<close>

text \<open>
  C4, as the code has it. When the fetch rejects, or the body of a non-success response
  cannot be parsed, the message shown is the message of that error. When a non-success
  response has an object as body, the message is its \<open>detail\<close> if that is a non-empty
  string, and the fallback of the operation if the object has no \<open>detail\<close> or an empty
  one. After every failed attempt an error message is set and the result of the
  operation is left as it was, which is absent when nothing else happened since the
  handler was entered.
\<close>

theorem failed_generation_message:
  "error (handleGenerateScript_finish e s (Inl m)) = Some m
   \<and> error (handleGenerateAudio_finish e s (Inl m)) = Some m
   \<and> (\<not> ok r \<and> json_body r = Inl m \<longrightarrow>
        error (handleGenerateScript_finish e s (Inr r)) = Some m
        \<and> error (handleGenerateAudio_finish e s (Inr r)) = Some m)
   \<and> (\<not> ok r \<and> json_body r = Inr (JObj kvs) \<and> map_of kvs (js ''detail'') = Some (JStr d)
        \<and> d \<noteq> [] \<longrightarrow>
        error (handleGenerateScript_finish e s (Inr r)) = Some d
        \<and> error (handleGenerateAudio_finish e s (Inr r)) = Some d)
   \<and> (\<not> ok r \<and> json_body r = Inr (JObj kvs)
        \<and> (map_of kvs (js ''detail'') = None \<or> map_of kvs (js ''detail'') = Some (JStr [])) \<longrightarrow>
        error (handleGenerateScript_finish e s (Inr r)) = Some (js ''Failed to generate script.'')
        \<and> error (handleGenerateAudio_finish e s (Inr r)) = Some (js ''Failed to generate audio.''))
   \<and> (failed fetched \<longrightarrow>
        scriptData (handleGenerateScript_finish e s fetched) = scriptData s
        \<and> audioUrl (handleGenerateAudio_finish e s fetched) = audioUrl s
        \<and> error (handleGenerateScript_finish e s fetched) \<noteq> None
        \<and> error (handleGenerateAudio_finish e s fetched) \<noteq> None)
   \<and> (failed (net (snd (handleGenerateScript_start s sourceType content))) \<longrightarrow>
        scriptData (handleGenerateScript e net s sourceType content) = JNull)
   \<and> (has_script s \<and> (\<forall>req. failed (net req)) \<longrightarrow>
        audioUrl (handleGenerateAudio e net s) = None)"
proof -
  have a: "error (handleGenerateScript_finish e s (Inl m)) = Some m"
    by (simp add: script_finish_thrown try_rejected)
  have b: "error (handleGenerateAudio_finish e s (Inl m)) = Some m"
    by (simp add: audio_finish_thrown try_rejected)
  have c: "\<not> ok r \<and> json_body r = Inl m \<longrightarrow>
        error (handleGenerateScript_finish e s (Inr r)) = Some m
        \<and> error (handleGenerateAudio_finish e s (Inr r)) = Some m"
    by (simp add: script_finish_thrown audio_finish_thrown try_unparsed)
  have d: "\<not> ok r \<and> json_body r = Inr (JObj kvs) \<and> map_of kvs (js ''detail'') = Some (JStr d)
        \<and> d \<noteq> [] \<longrightarrow>
        error (handleGenerateScript_finish e s (Inr r)) = Some d
        \<and> error (handleGenerateAudio_finish e s (Inr r)) = Some d"
    by (simp add: script_finish_thrown audio_finish_thrown try_detail)
  have f: "\<not> ok r \<and> json_body r = Inr (JObj kvs)
        \<and> (map_of kvs (js ''detail'') = None \<or> map_of kvs (js ''detail'') = Some (JStr [])) \<longrightarrow>
        error (handleGenerateScript_finish e s (Inr r)) = Some (js ''Failed to generate script.'')
        \<and> error (handleGenerateAudio_finish e s (Inr r)) = Some (js ''Failed to generate audio.'')"
    using try_fallback [of r kvs e]
    by (auto simp: script_finish_thrown audio_finish_thrown)
  have g: "failed fetched \<longrightarrow>
        scriptData (handleGenerateScript_finish e s fetched) = scriptData s
        \<and> audioUrl (handleGenerateAudio_finish e s fetched) = audioUrl s
        \<and> error (handleGenerateScript_finish e s fetched) \<noteq> None
        \<and> error (handleGenerateAudio_finish e s fetched) \<noteq> None" for s fetched
    using script_try_failed [of fetched e] audio_try_failed [of fetched e]
    by (auto simp: script_finish_thrown audio_finish_thrown)
  have h: "failed (net (snd (handleGenerateScript_start s sourceType content))) \<longrightarrow>
        scriptData (handleGenerateScript e net s sourceType content) = JNull"
    using g [of "net (snd (handleGenerateScript_start s sourceType content))"
               "fst (handleGenerateScript_start s sourceType content)"]
    by (simp add: handleGenerateScript_def case_prod_beta)
       (simp add: handleGenerateScript_start_def Let_def setters)
  have i: "has_script s \<and> (\<forall>req. failed (net req)) \<longrightarrow>
        audioUrl (handleGenerateAudio e net s) = None"
  proof (intro impI, elim conjE)
    assume hs: "has_script s" and all: "\<forall>req. failed (net req)"
    obtain s1 req where st: "handleGenerateAudio_start s = (s1, Some req)" and u: "audioUrl s1 = None"
      using hs by (simp add: handleGenerateAudio_start_def Let_def setters)
    from all have "failed (net req)" by blast
    with g [of "net req" s1] u st show "audioUrl (handleGenerateAudio e net s) = None"
      by (simp add: handleGenerateAudio_def)
  qed
  from a b c d f g h i show ?thesis
    by blast
qed

text \<open>
  C4 as amended, at the specification's example \<open>{detail: "bad topic"}\<close>, at a body
  without \<open>detail\<close>, at a body that is not JSON, and at a backend that cannot be reached.
\<close>

theorem failed_generation_message_witness:
  "error (handleGenerateScript_finish example_engine initial
            (refusing (js ''bad topic'') (snd (handleGenerateScript_start initial (js ''topic'') (js ''cats'')))))
     = Some (js ''bad topic'')
   \<and> error (handleGenerateScript_finish example_engine initial
            (Inr \<lparr>ok = False, json_body = Inr (JObj [])\<rparr>))
     = Some (js ''Failed to generate script.'')
   \<and> error (handleGenerateAudio_finish example_engine scripted
            (Inr \<lparr>ok = False, json_body = Inr (JObj [])\<rparr>))
     = Some (js ''Failed to generate audio.'')
   \<and> error (handleGenerateAudio_finish example_engine scripted
            (Inr \<lparr>ok = False, json_body = Inl (js ''Unexpected end of JSON input'')\<rparr>))
     = Some (js ''Unexpected end of JSON input'')
   \<and> failed (unreachable (snd (handleGenerateScript_start initial (js ''topic'') (js ''cats''))))
   \<and> scriptData (handleGenerateScript_finish example_engine scripted
            (unreachable (snd (handleGenerateScript_start initial (js ''topic'') (js ''cats'')))))
     = scriptData scripted
   \<and> scriptData (handleGenerateScript example_engine unreachable initial (js ''topic'') (js ''cats'')) = JNull
   \<and> has_script scripted
   \<and> audioUrl (handleGenerateAudio example_engine unreachable scripted) = None"
proof -
  let ?u = "\<lparr>ok = False, json_body = Inl (js ''Unexpected end of JSON input'')\<rparr>"
  have u: "\<not> ok ?u \<and> json_body ?u = Inl (js ''Unexpected end of JSON input'')"
    by simp
  have 6: "error (handleGenerateAudio_finish example_engine scripted (Inr ?u))
             = Some (js ''Unexpected end of JSON input'')"
    using failed_generation_message
      [of example_engine scripted "js ''Unexpected end of JSON input''" ?u] u
    by blast
  let ?r = "\<lparr>ok = False, json_body = Inr (JObj [(js ''detail'', JStr (js ''bad topic''))])\<rparr>"
  let ?q = "\<lparr>ok = False, json_body = Inr (JObj [])\<rparr>"
  have r: "\<not> ok ?r \<and> json_body ?r = Inr (JObj [(js ''detail'', JStr (js ''bad topic''))])
           \<and> map_of [(js ''detail'', JStr (js ''bad topic''))] (js ''detail'') = Some (JStr (js ''bad topic''))
           \<and> js ''bad topic'' \<noteq> []"
    by (simp add: js_def)
  have q: "\<not> ok ?q \<and> json_body ?q = Inr (JObj [])
           \<and> (map_of [] (js ''detail'') = (None :: json option)
                \<or> map_of [] (js ''detail'') = Some (JStr []))"
    by simp
  have f: "failed (unreachable req)" for req
    by (simp add: failed_def unreachable_def)
  have hs: "has_script scripted"
    by (simp add: has_script_def scripted_def script_of_def js_def)
  have 1: "error (handleGenerateScript_finish example_engine initial (Inr ?r)) = Some (js ''bad topic'')"
    using failed_generation_message
      [of example_engine initial _ ?r "[(js ''detail'', JStr (js ''bad topic''))]" "js ''bad topic''"] r
    by blast
  have 2: "error (handleGenerateScript_finish example_engine initial (Inr ?q))
             = Some (js ''Failed to generate script.'')"
    using failed_generation_message [of example_engine initial _ ?q "[]"] q
    by blast
  have 3: "error (handleGenerateAudio_finish example_engine scripted (Inr ?q))
             = Some (js ''Failed to generate audio.'')"
    using failed_generation_message [of example_engine scripted _ ?q "[]"] q
    by blast
  have 4: "scriptData (handleGenerateScript example_engine unreachable initial (js ''topic'') (js ''cats'')) = JNull"
    using failed_generation_message
      [of example_engine initial _ _ _ _ _ unreachable "js ''topic''" "js ''cats''"] f
    by blast
  have 5: "audioUrl (handleGenerateAudio example_engine unreachable scripted) = None"
    using failed_generation_message [of example_engine scripted _ _ _ _ _ unreachable] f hs
    by blast
  have 7: "scriptData (handleGenerateScript_finish example_engine scripted
            (unreachable (snd (handleGenerateScript_start initial (js ''topic'') (js ''cats'')))))
     = scriptData scripted"
    using failed_generation_message
      [of example_engine scripted _ _ _ _
          "unreachable (snd (handleGenerateScript_start initial (js ''topic'') (js ''cats'')))"] f
    by blast
  show ?thesis
    using 1 2 3 4 5 6 7 f hs by (simp add: refusing_def)
qed

text \<open>
  C4 as stated fails: when the backend cannot be reached no response body supplies a
  \<open>detail\<close>, and the message shown is the one of the rejection, not the fallback.
\<close>

theorem transport_failure_counterexample:
  "failed (unreachable (snd (handleGenerateScript_start initial (js ''topic'') (js ''cats''))))
   \<and> error (handleGenerateScript example_engine unreachable initial (js ''topic'') (js ''cats''))
       = Some (js ''Failed to fetch'')
   \<and> error (handleGenerateScript example_engine unreachable initial (js ''topic'') (js ''cats''))
       \<noteq> Some (js ''Failed to generate script.'')"
  by (simp add: failed_def unreachable_def handleGenerateScript_def handleGenerateScript_start_def
      handleGenerateScript_finish_def script_try_def Let_def setters js_def)

subsection \<open>Audio generation\<close>

text \<open>
  C8. With a script result whose script is a non-empty text, \<open>handleGenerateAudio\<close>
  sends a body with the single field \<open>script\<close> holding that text, and when the
  backend answers with success and an \<open>audio_url\<close> path, the audio result is the base
  address followed by that path.
\<close>

theorem generate_audio_sends_script_only:
  assumes "scriptData s = JObj kvs"
    and "map_of kvs (js ''script'') = Some (JStr t)"
    and "t \<noteq> []"
    and "net \<lparr>url = js ''http://127.0.0.1:8000/generate-audio'',
              http_method = js ''POST'',
              headers = [(js ''Content-Type'', js ''application/json'')],
              payload = JObj [(js ''script'', JStr t)]\<rparr>
         = Inr \<lparr>ok = True, json_body = Inr (JObj reply)\<rparr>"
    and "map_of reply (js ''audio_url'') = Some (JStr p)"
  shows "snd (handleGenerateAudio_start s) =
           Some \<lparr>url = js ''http://127.0.0.1:8000/generate-audio'',
                 http_method = js ''POST'',
                 headers = [(js ''Content-Type'', js ''application/json'')],
                 payload = JObj [(js ''script'', JStr t)]\<rparr>
         \<and> audioUrl (handleGenerateAudio e net s) = Some (js ''http://127.0.0.1:8000'' @ p)"
proof -
  have hs: "has_script s"
    using assms(1-3) by (simp add: has_script_def script_of_def)
  have u: "API_BASE_URL @ js ''/generate-audio'' = js ''http://127.0.0.1:8000/generate-audio''"
    by (simp add: API_BASE_URL_def js_def)
  have st: "handleGenerateAudio_start s =
          (s\<lparr>error := None, audioUrl := None, isLoadingAudio := True\<rparr>,
           Some \<lparr>url = js ''http://127.0.0.1:8000/generate-audio'',
                 http_method = js ''POST'',
                 headers = [(js ''Content-Type'', js ''application/json'')],
                 payload = JObj [(js ''script'', JStr t)]\<rparr>)"
    using hs assms(1,2) by (simp add: handleGenerateAudio_start_def Let_def setters script_of_def u)
  have tr: "audio_try e (Inr \<lparr>ok = True, json_body = Inr (JObj reply)\<rparr>)
              = Inr (js ''http://127.0.0.1:8000'' @ p)"
    using assms(5) by (simp add: audio_try_def API_BASE_URL_def)
  show ?thesis
    using st assms(4) tr
    by (simp add: handleGenerateAudio_def handleGenerateAudio_finish_def setters)
qed

text \<open>C8 at a script result with title, description and tags, and the path \<open>/audio/out.wav\<close>.\<close>

theorem generate_audio_sends_script_only_witness:
  "scriptData scripted =
     JObj [(js ''script'', JStr (js ''Hello and welcome.'')),
           (js ''title'', JStr (js ''Welcome'')),
           (js ''description'', JStr (js ''An introduction'')),
           (js ''tags'', JArr [JStr (js ''intro'')])]
   \<and> snd (handleGenerateAudio_start scripted) =
       Some \<lparr>url = js ''http://127.0.0.1:8000/generate-audio'',
             http_method = js ''POST'',
             headers = [(js ''Content-Type'', js ''application/json'')],
             payload = JObj [(js ''script'', JStr (js ''Hello and welcome.''))]\<rparr>
   \<and> audioUrl (handleGenerateAudio example_engine (serving_audio (js ''/audio/out.wav'')) scripted)
       = Some (js ''http://127.0.0.1:8000/audio/out.wav'')"
proof -
  let ?kvs = "[(js ''script'', JStr (js ''Hello and welcome.'')),
           (js ''title'', JStr (js ''Welcome'')),
           (js ''description'', JStr (js ''An introduction'')),
           (js ''tags'', JArr [JStr (js ''intro'')])]"
  have h1: "scriptData scripted = JObj ?kvs"
    by (simp add: scripted_def)
  have h2: "map_of ?kvs (js ''script'') = Some (JStr (js ''Hello and welcome.''))"
    by simp
  have h3: "js ''Hello and welcome.'' \<noteq> []"
    by (simp add: js_def)
  have h4: "serving_audio (js ''/audio/out.wav'')
              \<lparr>url = js ''http://127.0.0.1:8000/generate-audio'',
               http_method = js ''POST'',
               headers = [(js ''Content-Type'', js ''application/json'')],
               payload = JObj [(js ''script'', JStr (js ''Hello and welcome.''))]\<rparr>
            = Inr \<lparr>ok = True, json_body = Inr (JObj [(js ''audio_url'', JStr (js ''/audio/out.wav''))])\<rparr>"
    by (simp add: serving_audio_def)
  have h5: "map_of [(js ''audio_url'', JStr (js ''/audio/out.wav''))] (js ''audio_url'')
              = Some (JStr (js ''/audio/out.wav''))"
    by simp
  show ?thesis
    using generate_audio_sends_script_only
      [where net = "serving_audio (js ''/audio/out.wav'')" and e = example_engine,
       OF h1 h2 h3 h4 h5] h1
    by (simp add: js_def)
qed

subsection \<open>Loading flags\<close>

text \<open>
  C9. However a script request ends, the script-loading flag is false afterwards, and
  likewise the audio-loading flag after an audio request; no step of the script handlers
  changes the audio-loading flag, and no step of the audio handler changes the
  script-loading flag.
\<close>

theorem loading_flags:
  "isLoadingScript (handleGenerateScript_finish e s fetched) = False
   \<and> isLoadingAudio (handleGenerateScript_finish e s fetched) = isLoadingAudio s
   \<and> isLoadingAudio (fst (handleGenerateScript_start s sourceType content)) = isLoadingAudio s
   \<and> isLoadingAudio (fst (handleSubmitFromText s)) = isLoadingAudio s
   \<and> isLoadingAudio (fst (handleFileChange s files)) = isLoadingAudio s
   \<and> isLoadingScript (handleGenerateScript e net s sourceType content) = False
   \<and> isLoadingAudio (handleGenerateScript e net s sourceType content) = isLoadingAudio s
   \<and> isLoadingAudio (handleGenerateAudio_finish e s fetched) = False
   \<and> isLoadingScript (handleGenerateAudio_finish e s fetched) = isLoadingScript s
   \<and> isLoadingScript (fst (handleGenerateAudio_start s)) = isLoadingScript s
   \<and> isLoadingAudio (handleGenerateAudio e net s) = (if has_script s then False else isLoadingAudio s)
   \<and> isLoadingScript (handleGenerateAudio e net s) = isLoadingScript s"
proof -
  have sf: "isLoadingScript (handleGenerateScript_finish e s fetched) = False
            \<and> isLoadingAudio (handleGenerateScript_finish e s fetched) = isLoadingAudio s" for s fetched
    by (simp add: handleGenerateScript_finish_def setters split: sum.splits)
  have ss: "isLoadingAudio (fst (handleGenerateScript_start s sourceType content)) = isLoadingAudio s"
    for sourceType content
    by (simp add: handleGenerateScript_start_def Let_def setters)
  have st: "isLoadingAudio (fst (handleSubmitFromText s)) = isLoadingAudio s"
    using ss by (simp add: handleSubmitFromText_def Let_def case_prod_beta setters)
  have fc: "isLoadingAudio (fst (handleFileChange s files)) = isLoadingAudio s"
    using ss by (simp add: handleFileChange_def Let_def case_prod_beta setters split: option.splits)
  have sw: "isLoadingScript (handleGenerateScript e net s sourceType content) = False
            \<and> isLoadingAudio (handleGenerateScript e net s sourceType content) = isLoadingAudio s"
    using sf ss by (simp add: handleGenerateScript_def case_prod_beta)
  have af: "isLoadingAudio (handleGenerateAudio_finish e s fetched) = False
            \<and> isLoadingScript (handleGenerateAudio_finish e s fetched) = isLoadingScript s" for s fetched
    by (simp add: handleGenerateAudio_finish_def setters split: sum.splits)
  have as: "isLoadingScript (fst (handleGenerateAudio_start s)) = isLoadingScript s"
    by (simp add: handleGenerateAudio_start_def Let_def setters)
  have aw: "isLoadingAudio (handleGenerateAudio e net s) = (if has_script s then False else isLoadingAudio s)
            \<and> isLoadingScript (handleGenerateAudio e net s) = isLoadingScript s"
    using af by (simp add: handleGenerateAudio_def handleGenerateAudio_start_def Let_def setters)
  from sf ss st fc sw af as aw show ?thesis
    by simp
qed

text \<open>
  C10. When \<open>handleGenerateAudio\<close> is called while there is no script result, or its
  script is empty, only the error message changes: the audio result, the script
  result, both loading flags and the input are as before, and no request is issued.
\<close>

theorem generate_audio_without_script:
  assumes "scriptData s = JNull \<or> script_of (scriptData s) = Some (JStr [])"
  shows "handleGenerateAudio_start s =
           (s\<lparr>error := Some (js ''No script available to generate audio from.'')\<rparr>, None)
         \<and> audioUrl (fst (handleGenerateAudio_start s)) = audioUrl s
         \<and> scriptData (fst (handleGenerateAudio_start s)) = scriptData s
         \<and> isLoadingScript (fst (handleGenerateAudio_start s)) = isLoadingScript s
         \<and> isLoadingAudio (fst (handleGenerateAudio_start s)) = isLoadingAudio s
         \<and> userInput (fst (handleGenerateAudio_start s)) = userInput s
         \<and> handleGenerateAudio e net s =
             s\<lparr>error := Some (js ''No script available to generate audio from.'')\<rparr>"
proof -
  from assms have "\<not> has_script s"
    by (auto simp: has_script_def)
  then show ?thesis
    by (simp add: handleGenerateAudio_def handleGenerateAudio_start_def setters)
qed

text \<open>C10 at a state with an empty script and an earlier audio address, which stays.\<close>

theorem generate_audio_without_script_witness:
  "script_of (scriptData stale_audio) = Some (JStr [])
   \<and> handleGenerateAudio_start stale_audio =
       (stale_audio\<lparr>error := Some (js ''No script available to generate audio from.'')\<rparr>, None)
   \<and> audioUrl (fst (handleGenerateAudio_start stale_audio))
       = Some (js ''http://127.0.0.1:8000/audio/old.wav'')"
proof -
  have h: "script_of (scriptData stale_audio) = Some (JStr [])"
    by (simp add: stale_audio_def script_of_def)
  then have "scriptData stale_audio = JNull \<or> script_of (scriptData stale_audio) = Some (JStr [])"
    by simp
  from generate_audio_without_script [OF this] h show ?thesis
    by (simp add: stale_audio_def)
qed

end
